theory Spec2Isabelle
  imports Main "HOL-Library.AList"
begin

section \<open>NGSI context models of \<open>filip/cb/models.py\<close>\<close>

text \<open>
  The models of \<open>filip/cb/models.py\<close> are classes of a validation framework: a field
  declaration gives the type and the constraints of a field, a method decorated as a
  validator runs on the field's value, and a failed field makes the constructor raise.
  Each constructor is a function from the keyword arguments to \<open>error + model\<close>.

  A Python \<open>str\<close> is a \<open>string\<close>, one \<open>char\<close> per code point, so \<open>length\<close> is
  Python's \<open>len\<close>; code points above 255 are outside the model. A Python \<open>dict\<close> is an
  association list in insertion order, and a dict has no key twice.
\<close>

subsection \<open>Exceptions\<close>

text \<open>
  \<open>exn\<close> is what a piece of Python raises. Inside a validator the framework catches
  \<open>ValueError\<close> and \<open>TypeError\<close> (predicate \<open>caught\<close>) and records a violation for
  the field; every other exception leaves the constructor as it is. A constructor that
  recorded violations raises one \<open>ValidationError\<close> that lists them in field order.
  The violations carry the names of the specification's taxonomy: a length bound
  (\<open>min_length\<close>, \<open>max_length\<close>), a mismatch of the field's \<open>regex\<close>, a string that
  is no member of the enumeration, a \<open>ValueError\<close> of the value validator, and a payload
  of the wrong shape (a missing or ill-typed field, a failed metadata validator).
\<close>

datatype exn = ValueError | TypeError | KeyError string | OverflowError
  | AttributeError | ConfigError

datatype violation = LengthViolation | CharsetViolation | UnknownTypeTag
  | TypeCoercionError | MalformedAttributePayload

datatype error = ValidationError "(string \<times> violation) list" | Raised exn

fun caught :: "exn \<Rightarrow> bool" where
  "caught ValueError = True"
| "caught TypeError = True"
| "caught _ = False"

subsection \<open>The type tags\<close>

text \<open>
  Modelled from the spec: \<open>core.models.DataTypes\<close>, the enumeration of the NGSI value
  types, is imported by \<open>models.py\<close> and is not among the sources. The specification
  lists its tags as text, number, boolean, structured-value, relationship, date-time and
  geo-point; \<open>DataTypes_value\<close> is the string each member stands for on the wire
  (\<open>Text\<close>, \<open>Number\<close>, \<open>Boolean\<close>, \<open>StructuredValue\<close> and \<open>Relationship\<close> occur
  in the specification's examples and the tests, the other two are NGSI's names).
  No theorem below depends on which members there are beyond \<open>TEXT\<close>, \<open>NUMBER\<close>,
  \<open>BOOLEAN\<close> and \<open>RELATIONSHIP\<close>, the four the source names.
\<close>

datatype DataTypes = TEXT | NUMBER | BOOLEAN | STRUCTUREDVALUE | RELATIONSHIP
  | DATETIME | GEOPOINT

fun DataTypes_value :: "DataTypes \<Rightarrow> string" where
  "DataTypes_value TEXT = ''Text''"
| "DataTypes_value NUMBER = ''Number''"
| "DataTypes_value BOOLEAN = ''Boolean''"
| "DataTypes_value STRUCTUREDVALUE = ''StructuredValue''"
| "DataTypes_value RELATIONSHIP = ''Relationship''"
| "DataTypes_value DATETIME = ''DateTime''"
| "DataTypes_value GEOPOINT = ''geo:point''"

definition DataTypes_members :: "DataTypes list" where
  "DataTypes_members =
     [TEXT, NUMBER, BOOLEAN, STRUCTUREDVALUE, RELATIONSHIP, DATETIME, GEOPOINT]"

definition DataTypes_of_str :: "string \<Rightarrow> DataTypes option" where
  "DataTypes_of_str s = find (\<lambda>m. DataTypes_value m = s) DataTypes_members"

subsection \<open>Python values\<close>

text \<open>
  \<open>'f\<close> is the type of Python's floats, which the model does not fix. A \<open>py\<close> is a
  value as a caller passes it; a \<open>scalar\<close> is a value of a field declared
  \<open>Union[float, int, bool, str]\<close>.
\<close>

datatype 'f py = PNone | PBool bool | PInt int | PFloat 'f | PStr string
  | PEnum DataTypes | PList "'f py list" | PDict "(string \<times> 'f py) list"

datatype 'f scalar = VFloat 'f | VInt int | VBool bool | VStr string

text \<open>
  What the source takes from Python and from the framework without saying how it is
  done is a field of the \<open>host\<close>, and every theorem holds for every host.
  \<^item> The builtins on floats: \<open>float_of_int\<close> is \<open>float(i)\<close> (\<open>None\<close>:
    OverflowError), \<open>float_of_str\<close> is \<open>float(s)\<close> (\<open>None\<close>: ValueError, the string
    has no numeric form), \<open>float_truthy\<close> is \<open>bool(x)\<close> and \<open>float_str\<close> is
    \<open>str(x)\<close>.
  \<^item> \<open>union_scalar\<close> is the conversion of a raw value to the declared type
    \<open>Union[float, int, bool, str]\<close> of the field \<open>value\<close>, which the framework makes
    before it calls the validator of the field (\<open>Inl\<close>: the exception of a value that
    none of the four types takes).
\<close>

record 'f host =
  float_of_int :: "int \<Rightarrow> 'f option"
  float_of_str :: "string \<Rightarrow> 'f option"
  float_truthy :: "'f \<Rightarrow> bool"
  float_str :: "'f \<Rightarrow> string"
  union_scalar :: "'f py \<Rightarrow> exn + 'f scalar"

fun py_of_scalar :: "'f scalar \<Rightarrow> 'f py" where
  "py_of_scalar (VFloat x) = PFloat x"
| "py_of_scalar (VInt i) = PInt i"
| "py_of_scalar (VBool b) = PBool b"
| "py_of_scalar (VStr s) = PStr s"

subsection \<open>The builtins \<open>bool\<close>, \<open>float\<close> and \<open>str\<close> on scalars\<close>

definition digit_char :: "nat \<Rightarrow> char" where
  "digit_char d = ''0123456789'' ! d"

function str_of_nat :: "nat \<Rightarrow> string" where
  "str_of_nat n =
     (if n < 10 then [digit_char n] else str_of_nat (n div 10) @ [digit_char (n mod 10)])"
  by pat_completeness auto
termination
  by (relation "measure id") auto

declare str_of_nat.simps [simp del]

definition str_of_int :: "int \<Rightarrow> string" where
  "str_of_int i = (if i < 0 then CHR ''-'' # str_of_nat (nat (- i)) else str_of_nat (nat i))"

fun py_bool :: "'f host \<Rightarrow> 'f scalar \<Rightarrow> bool" where
  "py_bool h (VFloat x) = float_truthy h x"
| "py_bool h (VInt i) = (i \<noteq> 0)"
| "py_bool h (VBool b) = b"
| "py_bool h (VStr s) = (s \<noteq> [])"

fun py_float :: "'f host \<Rightarrow> 'f scalar \<Rightarrow> exn + 'f" where
  "py_float h (VFloat x) = Inr x"
| "py_float h (VInt i) =
     (case float_of_int h i of None \<Rightarrow> Inl OverflowError | Some x \<Rightarrow> Inr x)"
| "py_float h (VBool b) =
     (case float_of_int h (if b then 1 else 0) of None \<Rightarrow> Inl OverflowError | Some x \<Rightarrow> Inr x)"
| "py_float h (VStr s) =
     (case float_of_str h s of None \<Rightarrow> Inl ValueError | Some x \<Rightarrow> Inr x)"

fun py_str :: "'f host \<Rightarrow> 'f scalar \<Rightarrow> string" where
  "py_str h (VFloat x) = float_str h x"
| "py_str h (VInt i) = str_of_int i"
| "py_str h (VBool b) = (if b then ''True'' else ''False'')"
| "py_str h (VStr s) = s"

subsection \<open>\<open>ContextAttribute.validate_value_type\<close>\<close>

text \<open>
  \<open>values\<close> is the dict of the fields validated before \<open>value\<close>; the only such field
  is \<open>type\<close>, and it is in the dict when its own validation passed. \<open>values['type']\<close>
  raises KeyError otherwise.
\<close>

definition validate_value_type ::
  "'f host \<Rightarrow> 'f scalar \<Rightarrow> (string \<rightharpoonup> DataTypes) \<Rightarrow> exn + 'f scalar" where
  "validate_value_type h v values =
     (case values ''type'' of
        None \<Rightarrow> Inl (KeyError ''type'')
      | Some type_ \<Rightarrow>
          if type_ = BOOLEAN then Inr (VBool (py_bool h v))
          else if type_ = NUMBER then
            (case py_float h v of Inl e \<Rightarrow> Inl e | Inr x \<Rightarrow> Inr (VFloat x))
          else Inr (VStr (py_str h v)))"

subsection \<open>Regular expressions\<close>

text \<open>
  The field constraints are regular expressions, matched by \<open>re.match\<close>. The patterns
  of the source use the start and end anchors, character classes, literals, sequence,
  alternation, the star and the negative lookahead \<open>(?!...)\<close>; groups only bracket.
  \<open>rmatch r s i\<close> lists the positions at which a match of \<open>r\<close> that starts at position
  \<open>i\<close> of \<open>s\<close> can end, in the order a backtracking matcher tries them; \<open>re_match\<close>
  succeeds when there is one from position 0. \<open>$\<close> holds at the end of the string and
  before a newline that ends it. An iteration of a star that consumes nothing is not
  repeated, so \<open>length s\<close> iterations are all a star can make.
\<close>

datatype regex = Bol | Eol | OneOf string | Range nat nat | Lit string
  | Seq regex regex | Alt regex regex | Star regex | NotAhead regex

fun star_iter :: "(nat \<Rightarrow> nat list) \<Rightarrow> nat \<Rightarrow> nat \<Rightarrow> nat list" where
  "star_iter step 0 i = [i]"
| "star_iter step (Suc n) i =
     concat (map (star_iter step n) (filter (\<lambda>j. i < j) (step i))) @ [i]"

fun rmatch :: "regex \<Rightarrow> string \<Rightarrow> nat \<Rightarrow> nat list" where
  "rmatch Bol s i = (if i = 0 then [i] else [])"
| "rmatch Eol s i =
     (if i = length s \<or> (Suc i = length s \<and> s ! i = CHR 0x0A) then [i] else [])"
| "rmatch (OneOf cs) s i = (if i < length s \<and> s ! i \<in> set cs then [Suc i] else [])"
| "rmatch (Range lo hi) s i =
     (if i < length s \<and> lo \<le> of_char (s ! i) \<and> of_char (s ! i) \<le> hi then [Suc i] else [])"
| "rmatch (Lit w) s i = (if take (length w) (drop i s) = w then [i + length w] else [])"
| "rmatch (Seq a b) s i = concat (map (rmatch b s) (rmatch a s i))"
| "rmatch (Alt a b) s i = rmatch a s i @ rmatch b s i"
| "rmatch (Star a) s i = star_iter (rmatch a s) (length s) i"
| "rmatch (NotAhead a) s i = (if rmatch a s i = [] then [i] else [])"

definition re_match :: "regex \<Rightarrow> string \<Rightarrow> bool" where
  "re_match r s = (rmatch r s 0 \<noteq> [])"

text \<open>
  The patterns of the source. \<open>[\x00-\x7F]\<close> is the range of the code points 0 to
  127. The two patterns for metadata are one pattern, \<open>metadata_type_regex\<close>: in a
  class, \<^verbatim>\<open>\*\<close> and \<^verbatim>\<open>*\<close> are the same character.
  \<^item> \<open>ContextAttribute.type\<close>, \<open>ContextEntity.id\<close> and \<open>ContextEntity.type\<close>:
    \<^verbatim>\<open>^((?![?&#/])[\x00-\x7F])*$\<close>
  \<^item> \<open>ContextMetadata.type\<close>: \<^verbatim>\<open>^((?![?&#/\*])[\x00-\x7F])*$\<close>
  \<^item> \<open>NamedContextMetadata.name\<close>: \<^verbatim>\<open>^((?![?&#/*])[\x00-\x7F])*$\<close>
  \<^item> \<open>NamedContextAttribute.name\<close>:
    \<^verbatim>\<open>(^((?![?&#/])[\x00-\x7F])*$)(?!(id|type|geo:distance|\*))\<close>
\<close>

definition fiware_regex :: regex where
  "fiware_regex =
     Seq Bol (Seq (Star (Seq (NotAhead (OneOf ''?&#/'')) (Range 0x00 0x7F))) Eol)"

definition metadata_type_regex :: regex where
  "metadata_type_regex =
     Seq Bol (Seq (Star (Seq (NotAhead (OneOf ''?&#/*'')) (Range 0x00 0x7F))) Eol)"

definition attribute_name_regex :: regex where
  "attribute_name_regex =
     Seq (Seq Bol (Seq (Star (Seq (NotAhead (OneOf ''?&#/'')) (Range 0x00 0x7F))) Eol))
         (NotAhead (Alt (Lit ''id'') (Alt (Lit ''type'') (Alt (Lit ''geo:distance'') (Lit ''*'')))))"

text \<open>
  The characters a pattern admits, \<open>cs\<close> being the characters of its first
  lookahead: the code points up to 127 that are not in \<open>cs\<close>.
\<close>

definition fiware_char :: "string \<Rightarrow> char \<Rightarrow> bool" where
  "fiware_char cs c = (of_char c \<le> (127::nat) \<and> c \<notin> set cs)"

subsection \<open>Field declarations\<close>

text \<open>
  A \<open>str\<close> field with \<open>min_length\<close>, \<open>max_length\<close> and \<open>regex\<close>: the length bounds
  are checked first, then the pattern.
\<close>

definition constr_str :: "nat \<Rightarrow> nat \<Rightarrow> regex \<Rightarrow> string \<Rightarrow> violation + string" where
  "constr_str min_length max_length rx v =
     (if length v < min_length then Inl LengthViolation
      else if max_length < length v then Inl LengthViolation
      else if re_match rx v then Inr v
      else Inl CharsetViolation)"

text \<open>
  A field of type \<open>DataTypes\<close> takes a member, or the string a member stands for; the
  constraints of the declaration are checked on the member's string.
\<close>

definition DataTypes_field :: "regex option \<Rightarrow> 'f py \<Rightarrow> violation + DataTypes" where
  "DataTypes_field rx v =
     (case (case v of PEnum m \<Rightarrow> Some m | PStr s \<Rightarrow> DataTypes_of_str s | _ \<Rightarrow> None) of
        None \<Rightarrow> Inl UnknownTypeTag
      | Some m \<Rightarrow>
          (case rx of
             None \<Rightarrow> Inr m
           | Some r \<Rightarrow>
               (case constr_str 1 256 r (DataTypes_value m) of
                  Inl e \<Rightarrow> Inl e
                | Inr _ \<Rightarrow> Inr m)))"

definition str_field :: "regex \<Rightarrow> 'f py option \<Rightarrow> violation + string" where
  "str_field rx raw =
     (case raw of
        Some (PStr s) \<Rightarrow> constr_str 1 256 rx s
      | _ \<Rightarrow> Inl MalformedAttributePayload)"

definition optional_DataTypes_field ::
  "regex option \<Rightarrow> 'f py option \<Rightarrow> violation + DataTypes option" where
  "optional_DataTypes_field rx raw =
     (case raw of
        None \<Rightarrow> Inr None
      | Some PNone \<Rightarrow> Inr None
      | Some v \<Rightarrow> (case DataTypes_field rx v of Inl e \<Rightarrow> Inl e | Inr m \<Rightarrow> Inr (Some m)))"

definition viol :: "string \<Rightarrow> violation + 'a \<Rightarrow> (string \<times> violation) list" where
  "viol field r = (case r of Inl e \<Rightarrow> [(field, e)] | Inr _ \<Rightarrow> [])"

text \<open>\<open>f(**v)\<close> needs a mapping; of the values of \<open>py\<close> only a dict is one.\<close>

definition kwargs :: "'f py \<Rightarrow> exn + (string \<times> 'f py) list" where
  "kwargs v = (case v of PDict d \<Rightarrow> Inr d | _ \<Rightarrow> Inl TypeError)"

subsection \<open>\<open>ContextMetadata\<close>\<close>

record ContextMetadata =
  md_type :: "DataTypes option"
  md_value :: "DataTypes option"

definition ContextMetadata_init :: "(string \<times> 'f py) list \<Rightarrow> error + ContextMetadata" where
  "ContextMetadata_init kw =
     (let type_r = optional_DataTypes_field (Some metadata_type_regex) (map_of kw ''type'');
          value_r = optional_DataTypes_field None (map_of kw ''value'')
      in case (type_r, value_r) of
           (Inr t, Inr v) \<Rightarrow> Inr \<lparr>md_type = t, md_value = v\<rparr>
         | _ \<Rightarrow> Inl (ValidationError (viol ''type'' type_r @ viol ''value'' value_r)))"

definition ContextMetadata_dict :: "ContextMetadata \<Rightarrow> (string \<times> 'f py) list" where
  "ContextMetadata_dict m =
     [(''type'', case md_type m of None \<Rightarrow> PNone | Some t \<Rightarrow> PEnum t),
      (''value'', case md_value m of None \<Rightarrow> PNone | Some t \<Rightarrow> PEnum t)]"

subsection \<open>\<open>ContextAttribute\<close> and \<open>NamedContextAttribute\<close>\<close>

text \<open>
  The \<open>metadata\<close> field is declared \<open>Optional[Union[Dict, ContextMetadata]]\<close> with
  the default \<open>{}\<close>: it holds \<open>None\<close>, a dict or a metadata record.
\<close>

datatype 'f metadata = MetaNone | MetaDict "(string \<times> 'f py) list"
  | MetaModel ContextMetadata

record 'f ContextAttribute =
  attr_type :: DataTypes
  attr_value :: "'f scalar"
  attr_metadata :: "'f metadata"

record 'f NamedContextAttribute = "'f ContextAttribute" +
  attr_name :: string

text \<open>
  \<open>validate_metadata_type\<close>, as written: the \<open>else\<close> belongs to
  \<open>if isinstance(v, Dict)\<close>. An empty dict is returned as it is; a dict that is not
  empty reaches the end of the function, which returns \<open>None\<close>; only a value that is
  no dict reaches \<open>ContextMetadata(**v)\<close>. A ValidationError raised there is a
  ValueError.
\<close>

definition validate_metadata_type :: "'f py \<Rightarrow> exn + 'f metadata" where
  "validate_metadata_type v =
     (case v of
        PDict d \<Rightarrow> (if d = [] then Inr (MetaDict d) else Inr MetaNone)
      | _ \<Rightarrow>
          (case kwargs v of
             Inl e \<Rightarrow> Inl e
           | Inr kw \<Rightarrow>
               (case ContextMetadata_init kw of
                  Inl _ \<Rightarrow> Inl ValueError
                | Inr m \<Rightarrow> Inr (MetaModel m))))"

text \<open>
  The three fields in declaration order. \<open>type\<close> has the default \<open>DataTypes.TEXT\<close>;
  \<open>value\<close> is required, is converted to a scalar of the declared union and then
  passed to the validator; \<open>metadata\<close> has the default \<open>{}\<close>, accepts \<open>None\<close> and runs its validator
  on any other value. A default is not validated. An exception the framework does not
  catch ends the construction at once.
\<close>

definition type_field :: "'f py option \<Rightarrow> violation + DataTypes" where
  "type_field raw =
     (case raw of None \<Rightarrow> Inr TEXT | Some v \<Rightarrow> DataTypes_field (Some fiware_regex) v)"

definition value_field ::
  "'f host \<Rightarrow> (string \<rightharpoonup> DataTypes) \<Rightarrow> 'f py option \<Rightarrow> exn + (violation + 'f scalar)" where
  "value_field h values raw =
     (case raw of
        None \<Rightarrow> Inr (Inl MalformedAttributePayload)
      | Some r \<Rightarrow>
          (case union_scalar h r of
             Inl e \<Rightarrow> if caught e then Inr (Inl MalformedAttributePayload) else Inl e
           | Inr v \<Rightarrow>
               (case validate_value_type h v values of
                  Inl e \<Rightarrow> if caught e then Inr (Inl TypeCoercionError) else Inl e
                | Inr w \<Rightarrow> Inr (Inr w))))"

definition metadata_field :: "'f py option \<Rightarrow> exn + (violation + 'f metadata)" where
  "metadata_field raw =
     (case raw of
        None \<Rightarrow> Inr (Inr (MetaDict []))
      | Some PNone \<Rightarrow> Inr (Inr MetaNone)
      | Some v \<Rightarrow>
          (case validate_metadata_type v of
             Inl e \<Rightarrow> if caught e then Inr (Inl MalformedAttributePayload) else Inl e
           | Inr m \<Rightarrow> Inr (Inr m)))"

definition values_after_type :: "violation + DataTypes \<Rightarrow> (string \<rightharpoonup> DataTypes)" where
  "values_after_type type_r =
     (case type_r of Inl _ \<Rightarrow> Map.empty | Inr t \<Rightarrow> [''type'' \<mapsto> t])"

definition ContextAttribute_init ::
  "'f host \<Rightarrow> (string \<times> 'f py) list \<Rightarrow> error + 'f ContextAttribute" where
  "ContextAttribute_init h kw =
     (let type_r = type_field (map_of kw ''type'') in
      case value_field h (values_after_type type_r) (map_of kw ''value'') of
        Inl e \<Rightarrow> Inl (Raised e)
      | Inr value_r \<Rightarrow>
          (case metadata_field (map_of kw ''metadata'') of
             Inl e \<Rightarrow> Inl (Raised e)
           | Inr metadata_r \<Rightarrow>
               (case (type_r, value_r, metadata_r) of
                  (Inr t, Inr v, Inr m) \<Rightarrow>
                    Inr \<lparr>attr_type = t, attr_value = v, attr_metadata = m\<rparr>
                | _ \<Rightarrow>
                    Inl (ValidationError
                      (viol ''type'' type_r @ viol ''value'' value_r
                         @ viol ''metadata'' metadata_r)))))"

definition NamedContextAttribute_init ::
  "'f host \<Rightarrow> (string \<times> 'f py) list \<Rightarrow> error + 'f NamedContextAttribute" where
  "NamedContextAttribute_init h kw =
     (let type_r = type_field (map_of kw ''type'') in
      case value_field h (values_after_type type_r) (map_of kw ''value'') of
        Inl e \<Rightarrow> Inl (Raised e)
      | Inr value_r \<Rightarrow>
          (case metadata_field (map_of kw ''metadata'') of
             Inl e \<Rightarrow> Inl (Raised e)
           | Inr metadata_r \<Rightarrow>
               (let name_r = str_field attribute_name_regex (map_of kw ''name'') in
                case (type_r, value_r, metadata_r, name_r) of
                  (Inr t, Inr v, Inr m, Inr n) \<Rightarrow>
                    Inr \<lparr>attr_type = t, attr_value = v, attr_metadata = m, attr_name = n\<rparr>
                | _ \<Rightarrow>
                    Inl (ValidationError
                      (viol ''type'' type_r @ viol ''value'' value_r
                         @ viol ''metadata'' metadata_r @ viol ''name'' name_r)))))"

text \<open>\<open>parse_obj\<close> takes a dict and passes its items to the constructor.\<close>

definition parse_obj :: "'f host \<Rightarrow> 'f py \<Rightarrow> error + 'f ContextAttribute" where
  "parse_obj h obj =
     (case obj of
        PDict d \<Rightarrow> ContextAttribute_init h d
      | _ \<Rightarrow> Inl (ValidationError [(''__root__'', MalformedAttributePayload)]))"

definition ContextAttribute_dict :: "'f ContextAttribute \<Rightarrow> (string \<times> 'f py) list" where
  "ContextAttribute_dict a =
     [(''type'', PEnum (attr_type a)),
      (''value'', py_of_scalar (attr_value a)),
      (''metadata'',
         case attr_metadata a of
           MetaNone \<Rightarrow> PNone
         | MetaDict d \<Rightarrow> PDict d
         | MetaModel m \<Rightarrow> PDict (ContextMetadata_dict m))]"

subsection \<open>\<open>ContextEntity\<close>\<close>

text \<open>
  An entity holds the two declared fields and, the configuration being
  \<open>extra = 'allow'\<close>, every other keyword as an extra field, in the order given.
\<close>

record 'f ContextEntity =
  entity_id :: string
  entity_type :: string
  entity_attrs :: "(string \<times> 'f ContextAttribute) list"

definition ContextEntity_fields :: "string list" where
  "ContextEntity_fields = [''id'', ''type'']"

text \<open>A comprehension evaluates its items in order; the first exception ends it.\<close>

fun traverse :: "('a \<Rightarrow> error + 'b) \<Rightarrow> 'a list \<Rightarrow> error + 'b list" where
  "traverse f [] = Inr []"
| "traverse f (x # xs) =
     (case f x of
        Inl e \<Rightarrow> Inl e
      | Inr y \<Rightarrow> (case traverse f xs of Inl e \<Rightarrow> Inl e | Inr ys \<Rightarrow> Inr (y # ys)))"

definition validate_properties ::
  "'f host \<Rightarrow> (string \<times> 'f py) list \<Rightarrow> error + (string \<times> 'f ContextAttribute) list" where
  "validate_properties h data =
     traverse
       (\<lambda>(key, attr). case parse_obj h attr of Inl e \<Rightarrow> Inl e | Inr a \<Rightarrow> Inr (key, a))
       (filter (\<lambda>(key, attr). key \<notin> set ContextEntity_fields) data)"

text \<open>
  \<open>__init__(self, id, type, **data)\<close>: a call that gives \<open>id\<close> or \<open>type\<close> a second
  time among the keywords cannot be bound (TypeError). \<open>data.update\<close> then puts the
  parsed attribute in the place of every payload, and the base constructor validates
  \<open>id\<close> and \<open>type\<close> and keeps the rest as extra fields.
\<close>

definition ContextEntity_init ::
  "'f host \<Rightarrow> string \<Rightarrow> string \<Rightarrow> (string \<times> 'f py) list \<Rightarrow> error + 'f ContextEntity" where
  "ContextEntity_init h id' type' data =
     (if list_ex (\<lambda>(key, attr). key \<in> set ContextEntity_fields) data
      then Inl (Raised TypeError)
      else
        (case validate_properties h data of
           Inl e \<Rightarrow> Inl e
         | Inr attrs \<Rightarrow>
             (let id_r = constr_str 1 256 fiware_regex id';
                  type_r = constr_str 1 256 fiware_regex type'
              in case (id_r, type_r) of
                   (Inr i, Inr t) \<Rightarrow>
                     Inr \<lparr>entity_id = i, entity_type = t, entity_attrs = attrs\<rparr>
                 | _ \<Rightarrow> Inl (ValidationError (viol ''id'' id_r @ viol ''type'' type_r)))))"

text \<open>\<open>dict()\<close>: the fields, then the extra fields, each model as the dict of its fields.\<close>

definition ContextEntity_dict :: "'f ContextEntity \<Rightarrow> (string \<times> 'f py) list" where
  "ContextEntity_dict e =
     (''id'', PStr (entity_id e)) # (''type'', PStr (entity_type e))
       # map (\<lambda>(key, a). (key, PDict (ContextAttribute_dict a))) (entity_attrs e)"








subsection \<open>\<open>add_properties\<close>\<close>

text \<open>
  The argument is a dict of attributes or a list of named attributes. A model is no
  mapping (it has neither \<open>keys\<close> nor \<open>__getitem__\<close>), so \<open>ContextAttribute(**attr)\<close>
  on a named attribute raises TypeError before the constructor is entered.
\<close>

datatype 'f attrs_arg = AttrsDict "(string \<times> 'f ContextAttribute) list"
  | AttrsList "'f NamedContextAttribute list"

definition model_kwargs :: "'f NamedContextAttribute \<Rightarrow> exn + (string \<times> 'f py) list" where
  "model_kwargs attr = Inl TypeError"

definition attribute_of_named ::
  "'f host \<Rightarrow> 'f NamedContextAttribute \<Rightarrow> error + string \<times> 'f ContextAttribute" where
  "attribute_of_named h attr =
     (case model_kwargs attr of
        Inl x \<Rightarrow> Inl (Raised x)
      | Inr kw \<Rightarrow>
          (case ContextAttribute_init h kw of
             Inl e \<Rightarrow> Inl e
           | Inr a \<Rightarrow> Inr (attr_name attr, a)))"

text \<open>
  \<open>__setattr__\<close> under \<open>extra = 'allow'\<close> and \<open>validate_assignment = True\<close>: a
  declared field is validated, and an attribute is no \<open>str\<close>; any other name is stored
  as it is, in the place of the old value or after the last field.
\<close>

definition setattr ::
  "'f ContextEntity \<Rightarrow> string \<Rightarrow> 'f ContextAttribute \<Rightarrow> error + 'f ContextEntity" where
  "setattr e name value' =
     (if name \<in> set ContextEntity_fields
      then Inl (ValidationError [(name, MalformedAttributePayload)])
      else Inr (e\<lparr>entity_attrs := AList.update name value' (entity_attrs e)\<rparr>))"

text \<open>
  The loop assigns in order and the entity is mutated in place: the result is the entity
  as the loop left it, and the exception that ended it, if one did.
\<close>

fun setattr_all ::
  "'f ContextEntity \<Rightarrow> (string \<times> 'f ContextAttribute) list
     \<Rightarrow> 'f ContextEntity \<times> error option" where
  "setattr_all e [] = (e, None)"
| "setattr_all e ((key, attr) # rest) =
     (case setattr e key attr of
        Inl er \<Rightarrow> (e, Some er)
      | Inr e' \<Rightarrow> setattr_all e' rest)"

definition add_properties ::
  "'f host \<Rightarrow> 'f ContextEntity \<Rightarrow> 'f attrs_arg \<Rightarrow> 'f ContextEntity \<times> error option" where
  "add_properties h e attrs =
     (case (case attrs of
              AttrsList xs \<Rightarrow> traverse (attribute_of_named h) xs
            | AttrsDict d \<Rightarrow> Inr d) of
        Inl er \<Rightarrow> (e, Some er)
      | Inr d \<Rightarrow> setattr_all e d)"

subsection \<open>\<open>create_context_entity_model\<close>\<close>

text \<open>
  The generated class is described by its name, the names of its required attribute
  fields (each declared \<open>(ContextAttribute, ...)\<close>) and its validators, each with the
  field it is registered for. \<open>create_model\<close> builds the class from the base
  \<open>ContextEntity\<close>; the framework refuses a validator registered for a name that is
  no field of the class (ConfigError).
\<close>

record entity_model =
  model_name :: string
  model_required :: "string list"
  model_validators :: "(string \<times> string) list"

definition create_model ::
  "string \<Rightarrow> (string \<times> string) list \<Rightarrow> string list \<Rightarrow> exn + entity_model" where
  "create_model name validators properties =
     (if list_all (\<lambda>(v, field). field \<in> set (ContextEntity_fields @ properties)) validators
      then Inr \<lparr>model_name = name, model_required = properties,
                model_validators = validators\<rparr>
      else Inl ConfigError)"

text \<open>
  \<open>data\<close> has the default \<open>None\<close>, on which \<open>data.keys()\<close> raises AttributeError;
  \<open>name or 'GeneratedContextEntity'\<close> takes the default for \<open>None\<close> and for the empty
  string. The one validator, \<open>validate_test\<close>, is registered for the field
  \<open>temperature\<close>.
\<close>

definition create_context_entity_model ::
  "string option \<Rightarrow> (string \<times> 'f py) list option \<Rightarrow> error + entity_model" where
  "create_context_entity_model name data =
     (case data of
        None \<Rightarrow> Inl (Raised AttributeError)
      | Some d \<Rightarrow>
          (let properties = filter (\<lambda>key. key \<notin> set ContextEntity_fields) (map fst d);
               validators = [(''validate_test'', ''temperature'')]
           in case create_model
                     (case name of
                        None \<Rightarrow> ''GeneratedContextEntity''
                      | Some n \<Rightarrow> if n = [] then ''GeneratedContextEntity'' else n)
                     validators properties of
                Inl x \<Rightarrow> Inl (Raised x)
              | Inr m \<Rightarrow> Inr m))"

subsection \<open>A host for the examples\<close>

text \<open>
  The examples need one host. In \<open>integral_host\<close> the floats are the integral ones,
  written as integers: \<open>float\<close> of a string reads an optional minus sign and decimal
  digits (a part of what Python reads), and \<open>str\<close> writes the integer and \<open>.0\<close>.
  Its conversion to the union tries the types in the order of the declaration, so
  \<open>float\<close> takes every float, int and bool and every string that \<open>float\<close> reads, and
  \<open>str\<close> takes the other strings.
\<close>

definition nat_of_digits :: "string \<Rightarrow> int option" where
  "nat_of_digits s =
     (if s \<noteq> [] \<and> list_all (\<lambda>c. c \<in> set ''0123456789'') s
      then Some (foldl (\<lambda>acc c. 10 * acc + (int (of_char c) - 48)) 0 s)
      else None)"

definition integral_of_str :: "string \<Rightarrow> int option" where
  "integral_of_str s =
     (case s of
        [] \<Rightarrow> None
      | c # r \<Rightarrow> if c = CHR ''-'' then map_option uminus (nat_of_digits r)
                 else nat_of_digits s)"

definition integral_host :: "int host" where
  "integral_host =
     \<lparr>float_of_int = Some,
      float_of_str = integral_of_str,
      float_truthy = (\<lambda>x. x \<noteq> 0),
      float_str = (\<lambda>x. str_of_int x @ ''.0''),
      union_scalar =
        (\<lambda>raw. case raw of
                 PFloat x \<Rightarrow> Inr (VFloat x)
               | PInt i \<Rightarrow> Inr (VFloat i)
               | PBool b \<Rightarrow> Inr (VFloat (if b then 1 else 0))
               | PStr s \<Rightarrow>
                   (case integral_of_str s of
                      Some x \<Rightarrow> Inr (VFloat x)
                    | None \<Rightarrow> Inr (VStr s))
               | _ \<Rightarrow> Inl TypeError)\<rparr>"


section \<open>Properties\<close>

subsection \<open>What the patterns accept\<close>

text \<open>
  Each of the patterns accepts the strings whose characters the pattern admits, and no
  other string. The lookahead of the pattern for attribute names is only tried where
  the end anchor holds, finds none of the reserved names there, and so changes nothing.
\<close>

lemma rmatch_char:
  "rmatch (Seq (NotAhead (OneOf cs)) (Range 0x00 0x7F)) s i
     = (if i < length s \<and> fiware_char cs (s ! i) then [Suc i] else [])"
  by (auto simp: fiware_char_def)

lemma set_star_iter:
  "set (star_iter (rmatch (Seq (NotAhead (OneOf cs)) (Range 0x00 0x7F)) s) n i)
     = {j. i \<le> j \<and> j \<le> i + n \<and> (\<forall>k. i \<le> k \<and> k < j \<longrightarrow> k < length s \<and> fiware_char cs (s ! k))}"
proof (induction n arbitrary: i)
  case 0
  then show ?case by auto
next
  case (Suc n)
  show ?case
  proof (cases "i < length s \<and> fiware_char cs (s ! i)")
    case True
    have "{j. i \<le> j \<and> j \<le> i + Suc n \<and> (\<forall>k. i \<le> k \<and> k < j \<longrightarrow> k < length s \<and> fiware_char cs (s ! k))}
        = insert i {j. Suc i \<le> j \<and> j \<le> Suc i + n \<and> (\<forall>k. Suc i \<le> k \<and> k < j \<longrightarrow> k < length s \<and> fiware_char cs (s ! k))}"
      (is "?L = insert i ?R")
    proof (intro set_eqI iffI)
      fix j assume "j \<in> ?L"
      then show "j \<in> insert i ?R"
        by (cases "j = i") auto
    next
      fix j assume j: "j \<in> insert i ?R"
      show "j \<in> ?L"
      proof (cases "j = i")
        case True
        then show ?thesis by fastforce
      next
        case False
        with j have r: "j \<in> ?R" by simp
        have "k < length s \<and> fiware_char cs (s ! k)" if "i \<le> k \<and> k < j" for k
        proof (cases "k = i")
          case True
          with \<open>i < length s \<and> fiware_char cs (s ! i)\<close> show ?thesis by simp
        next
          case False
          with that have "Suc i \<le> k \<and> k < j" by simp
          with r show ?thesis by blast
        qed
        with r show ?thesis by auto
      qed
    qed
    then show ?thesis
      using True Suc.IH [of "Suc i"]
      by (simp only: star_iter.simps rmatch_char) auto
  next
    case False
    have "{j. i \<le> j \<and> j \<le> i + Suc n \<and> (\<forall>k. i \<le> k \<and> k < j \<longrightarrow> k < length s \<and> fiware_char cs (s ! k))} = {i}"
    proof (intro set_eqI iffI)
      fix j assume j: "j \<in> {j. i \<le> j \<and> j \<le> i + Suc n \<and> (\<forall>k. i \<le> k \<and> k < j \<longrightarrow> k < length s \<and> fiware_char cs (s ! k))}"
      have "j = i"
      proof (rule ccontr)
        assume "j \<noteq> i"
        with j have "i \<le> i \<and> i < j" by simp
        with j have "i < length s \<and> fiware_char cs (s ! i)" by blast
        with False show False by simp
      qed
      then show "j \<in> {i}" by simp
    qed auto
    then show ?thesis
      using False by (simp only: star_iter.simps rmatch_char) auto
  qed
qed

lemma newline_fiware_char:
  "CHR 0x0A \<notin> set cs \<Longrightarrow> fiware_char cs (CHR 0x0A)"
  by (simp add: fiware_char_def)

lemma set_rmatch_anchored:
  assumes "CHR 0x0A \<notin> set cs"
  shows "set (rmatch (Seq Bol (Seq (Star (Seq (NotAhead (OneOf cs)) (Range 0x00 0x7F))) Eol)) s 0)
     = {j. list_all (fiware_char cs) s \<and> (j = length s \<or> (Suc j = length s \<and> s ! j = CHR 0x0A))}"
proof -
  let ?X = "Seq (NotAhead (OneOf cs)) (Range 0x00 0x7F)"
  have all: "list_all (fiware_char cs) s \<longleftrightarrow> (\<forall>k < length s. fiware_char cs (s ! k))"
    by (simp add: list_all_length)
  have "set (rmatch (Seq Bol (Seq (Star ?X) Eol)) s 0)
      = {j. j \<in> set (star_iter (rmatch ?X s) (length s) 0)
            \<and> (j = length s \<or> (Suc j = length s \<and> s ! j = CHR 0x0A))}"
    by (simp del: rmatch.simps(6) add: rmatch.simps(6) [of Bol] rmatch.simps(6) [of "Star ?X"]) auto
  also have "\<dots> = {j. list_all (fiware_char cs) s \<and> (j = length s \<or> (Suc j = length s \<and> s ! j = CHR 0x0A))}"
  proof (intro set_eqI iffI)
    fix j
    assume "j \<in> {j. j \<in> set (star_iter (rmatch ?X s) (length s) 0)
            \<and> (j = length s \<or> (Suc j = length s \<and> s ! j = CHR 0x0A))}"
    then have m: "j \<in> set (star_iter (rmatch ?X s) (length s) 0)"
      and e: "j = length s \<or> (Suc j = length s \<and> s ! j = CHR 0x0A)"
      by simp_all
    from m have pre: "\<forall>k < j. k < length s \<and> fiware_char cs (s ! k)"
      unfolding set_star_iter by simp
    have "fiware_char cs (s ! k)" if "k < length s" for k
    proof (cases "k < j")
      case True
      with pre show ?thesis by simp
    next
      case False
      with e that have "k = j \<and> s ! j = CHR 0x0A" by auto
      with assms show ?thesis by (simp add: newline_fiware_char)
    qed
    then show "j \<in> {j. list_all (fiware_char cs) s
        \<and> (j = length s \<or> (Suc j = length s \<and> s ! j = CHR 0x0A))}"
      using e by (simp add: all)
  next
    fix j
    assume "j \<in> {j. list_all (fiware_char cs) s
        \<and> (j = length s \<or> (Suc j = length s \<and> s ! j = CHR 0x0A))}"
    then have a: "list_all (fiware_char cs) s"
      and e: "j = length s \<or> (Suc j = length s \<and> s ! j = CHR 0x0A)"
      by simp_all
    have "j \<in> set (star_iter (rmatch ?X s) (length s) 0)"
      unfolding set_star_iter using a e by (auto simp: all)
    with e show "j \<in> {j. j \<in> set (star_iter (rmatch ?X s) (length s) 0)
        \<and> (j = length s \<or> (Suc j = length s \<and> s ! j = CHR 0x0A))}"
      by simp
  qed
  finally show ?thesis .
qed

lemma re_match_fiware_regex:
  "re_match fiware_regex s \<longleftrightarrow> list_all (fiware_char ''?&#/'') s"
proof -
  have "rmatch fiware_regex s 0 \<noteq> [] \<longleftrightarrow> set (rmatch fiware_regex s 0) \<noteq> {}"
    by simp
  also have "\<dots> \<longleftrightarrow> list_all (fiware_char ''?&#/'') s"
    unfolding fiware_regex_def by (subst set_rmatch_anchored) auto
  finally show ?thesis by (simp add: re_match_def)
qed

lemma re_match_metadata_type_regex:
  "re_match metadata_type_regex s \<longleftrightarrow> list_all (fiware_char ''?&#/*'') s"
proof -
  have "rmatch metadata_type_regex s 0 \<noteq> [] \<longleftrightarrow> set (rmatch metadata_type_regex s 0) \<noteq> {}"
    by simp
  also have "\<dots> \<longleftrightarrow> list_all (fiware_char ''?&#/*'') s"
    unfolding metadata_type_regex_def by (subst set_rmatch_anchored) auto
  finally show ?thesis by (simp add: re_match_def)
qed


lemma reserved_lookahead_at_end:
  assumes "j = length s \<or> (Suc j = length s \<and> s ! j = CHR 0x0A)"
  shows "rmatch (NotAhead (Alt (Lit ''id'') (Alt (Lit ''type'')
           (Alt (Lit ''geo:distance'') (Lit ''*''))))) s j = [j]"
proof -
  have "drop j s = [] \<or> drop j s = [CHR 0x0A]"
  proof (cases "j = length s")
    case True
    then show ?thesis by simp
  next
    case False
    with assms have j: "Suc j = length s" "s ! j = CHR 0x0A" by simp_all
    then have "drop j s = s ! j # drop (Suc j) s"
      by (intro Cons_nth_drop_Suc [symmetric]) simp
    with j show ?thesis by simp
  qed
  then show ?thesis by auto
qed

lemma re_match_attribute_name_regex:
  "re_match attribute_name_regex s \<longleftrightarrow> list_all (fiware_char ''?&#/'') s"
proof -
  let ?A = "Seq Bol (Seq (Star (Seq (NotAhead (OneOf ''?&#/'')) (Range 0x00 0x7F))) Eol)"
  let ?N = "NotAhead (Alt (Lit ''id'') (Alt (Lit ''type'')
           (Alt (Lit ''geo:distance'') (Lit ''*''))))"
  have ends: "set (rmatch ?A s 0)
      = {j. list_all (fiware_char ''?&#/'') s
            \<and> (j = length s \<or> (Suc j = length s \<and> s ! j = CHR 0x0A))}"
    by (rule set_rmatch_anchored) simp
  have "set (rmatch (Seq ?A ?N) s 0) = (\<Union>j \<in> set (rmatch ?A s 0). set (rmatch ?N s j))"
    by (simp only: rmatch.simps(6) [of ?A ?N] set_concat set_map) auto
  also have "\<dots> = (\<Union>j \<in> set (rmatch ?A s 0). {j})"
    using reserved_lookahead_at_end [of _ s] unfolding ends by auto
  also have "\<dots> = set (rmatch ?A s 0)"
    by auto
  finally have "set (rmatch attribute_name_regex s 0) = set (rmatch ?A s 0)"
    by (simp only: attribute_name_regex_def)
  then have "rmatch attribute_name_regex s 0 \<noteq> [] \<longleftrightarrow> set (rmatch ?A s 0) \<noteq> {}"
    by (metis set_empty)
  also have "\<dots> \<longleftrightarrow> list_all (fiware_char ''?&#/'') s"
    unfolding ends by auto
  finally show ?thesis by (simp add: re_match_def)
qed

lemma constr_str_fiware:
  "constr_str 1 256 fiware_regex v
     = (if length v < 1 \<or> 256 < length v then Inl LengthViolation
        else if list_all (fiware_char ''?&#/'') v then Inr v else Inl CharsetViolation)"
  by (simp add: constr_str_def re_match_fiware_regex)

lemma constr_str_attribute_name:
  "constr_str 1 256 attribute_name_regex v = constr_str 1 256 fiware_regex v"
  by (simp add: constr_str_def re_match_fiware_regex re_match_attribute_name_regex)

subsection \<open>The value validator\<close>

lemma py_float_raises: "py_float h v = Inl e \<Longrightarrow> e = OverflowError \<or> e = ValueError"
  by (cases v) (auto split: option.splits)



text \<open>
  C9. Coercion is idempotent: when the value validator returns \<open>w\<close> for a value and a
  type tag, it returns \<open>w\<close> again for \<open>w\<close> and the same tag. The results are compared as
  values of the model; that Python's \<open>==\<close> makes a NaN differ from itself is a matter of
  the floats, which the model leaves to the host.
\<close>

theorem coercion_idempotent:
  "validate_value_type h v values = Inr w \<Longrightarrow> validate_value_type h w values = Inr w"
  by (auto simp: validate_value_type_def split: option.splits if_splits sum.splits)

theorem coercion_idempotent_witness:
  "validate_value_type integral_host (VInt 20) [''type'' \<mapsto> NUMBER] = Inr (VFloat 20)
   \<and> validate_value_type integral_host (VFloat 20) [''type'' \<mapsto> NUMBER] = Inr (VFloat 20)"
proof -
  have h: "validate_value_type integral_host (VInt 20) [''type'' \<mapsto> NUMBER] = Inr (VFloat 20)"
    by (simp add: validate_value_type_def integral_host_def integral_of_str_def nat_of_digits_def)
  show ?thesis using h coercion_idempotent [OF h] by simp
qed



subsection \<open>Construction of an entity\<close>

lemma traverse_first_error:
  "list_ex (\<lambda>x. isl (f x)) xs \<Longrightarrow>
     \<exists>pre x post e. xs = pre @ x # post \<and> list_all (\<lambda>y. \<not> isl (f y)) pre
        \<and> f x = Inl e \<and> traverse f xs = Inl e"
proof (induction xs)
  case Nil
  then show ?case by simp
next
  case (Cons y ys)
  show ?case
  proof (cases "f y")
    case (Inl e)
    then have "y # ys = [] @ y # ys \<and> list_all (\<lambda>y. \<not> isl (f y)) [] \<and> f y = Inl e
        \<and> traverse f (y # ys) = Inl e"
      by simp
    then show ?thesis by blast
  next
    case (Inr b)
    with Cons.prems have "list_ex (\<lambda>x. isl (f x)) ys" by simp
    from Cons.IH [OF this] obtain pre x post e where
      *: "ys = pre @ x # post" "list_all (\<lambda>y. \<not> isl (f y)) pre" "f x = Inl e"
         "traverse f ys = Inl e"
      by blast
    have "y # ys = (y # pre) @ x # post \<and> list_all (\<lambda>y. \<not> isl (f y)) (y # pre)
        \<and> f x = Inl e \<and> traverse f (y # ys) = Inl e"
      using * Inr by simp
    then show ?thesis by blast
  qed
qed


text \<open>
  C2. When one payload of the attribute map is malformed, the construction of the entity
  fails as a whole: the constructor raises the error that \<open>parse_obj\<close> raised for the
  first malformed payload, unchanged, whatever \<open>id\<close> and \<open>type\<close> are, and there is no
  entity. The keywords of a call cannot hold \<open>id\<close> or \<open>type\<close>, which are parameters
  of their own; this is the first hypothesis.
\<close>

theorem construction_aborts_on_malformed_attribute:
  assumes "list_all (\<lambda>(key, attr). key \<notin> set ContextEntity_fields) data"
    and "list_ex (\<lambda>(key, attr). isl (parse_obj h attr)) data"
  shows "\<exists>pre key attr post e. data = pre @ (key, attr) # post
           \<and> list_all (\<lambda>(k, a). \<not> isl (parse_obj h a)) pre
           \<and> parse_obj h attr = Inl e
           \<and> ContextEntity_init h i t data = Inl e"
proof -
  let ?f = "\<lambda>(key, attr). case parse_obj h attr of Inl e \<Rightarrow> Inl e
                                              | Inr a \<Rightarrow> (Inr (key, a) :: error + _)"
  have keep: "filter (\<lambda>(key, attr). key \<notin> set ContextEntity_fields) data = data"
    using assms(1) by (induction data) auto
  have nodup: "\<not> list_ex (\<lambda>(key, attr). key \<in> set ContextEntity_fields) data"
    using assms(1) by (induction data) auto
  have "list_ex (\<lambda>x. isl (?f x)) data"
    using assms(2) by (induction data) (auto split: sum.splits)
  from traverse_first_error [OF this] obtain pre x post e where
    *: "data = pre @ x # post" "list_all (\<lambda>y. \<not> isl (?f y)) pre" "?f x = Inl e"
       "traverse ?f data = Inl e"
    by blast
  obtain key attr where x: "x = (key, attr)" by (cases x)
  have pre: "list_all (\<lambda>(k, a). \<not> isl (parse_obj h a)) pre"
    using *(2) by (induction pre) (auto split: sum.splits)
  have bad: "parse_obj h attr = Inl e"
    using *(3) x by (simp split: sum.splits)
  have "ContextEntity_init h i t data = Inl e"
    using *(4) nodup by (simp add: ContextEntity_init_def validate_properties_def keep)
  with *(1) x pre bad show ?thesis by blast
qed


theorem construction_aborts_on_malformed_attribute_witness:
  "list_all (\<lambda>(key, attr). key \<notin> set ContextEntity_fields)
     ([(''temperature'', PDict [(''type'', PStr ''Number''), (''value'', PInt 20)]),
       (''humidity'', PDict [(''type'', PStr ''Number'')])] :: (string \<times> int py) list)
   \<and> list_ex (\<lambda>(key, attr). isl (parse_obj integral_host attr))
     [(''temperature'', PDict [(''type'', PStr ''Number''), (''value'', PInt 20)]),
      (''humidity'', PDict [(''type'', PStr ''Number'')])]
   \<and> parse_obj integral_host (PDict [(''type'', PStr ''Number'')])
       = Inl (ValidationError [(''value'', MalformedAttributePayload)])
   \<and> (\<exists>pre key attr post e.
         [(''temperature'', PDict [(''type'', PStr ''Number''), (''value'', PInt 20)]),
          (''humidity'', PDict [(''type'', PStr ''Number'')])] = pre @ (key, attr) # post
         \<and> list_all (\<lambda>(k, a). \<not> isl (parse_obj integral_host a)) pre
         \<and> parse_obj integral_host attr = Inl e
         \<and> ContextEntity_init integral_host ''Bcn-Welt'' ''Room''
              [(''temperature'', PDict [(''type'', PStr ''Number''), (''value'', PInt 20)]),
               (''humidity'', PDict [(''type'', PStr ''Number'')])] = Inl e)"
proof -
  let ?data = "[(''temperature'', PDict [(''type'', PStr ''Number''), (''value'', PInt 20)]),
      (''humidity'', PDict [(''type'', PStr ''Number'')])] :: (string \<times> int py) list"
  have bad: "parse_obj integral_host (PDict [(''type'', PStr ''Number'')])
       = Inl (ValidationError [(''value'', MalformedAttributePayload)])"
    by (simp add: parse_obj_def ContextAttribute_init_def type_field_def DataTypes_field_def
        DataTypes_of_str_def DataTypes_members_def constr_str_def re_match_def fiware_regex_def
        value_field_def values_after_type_def metadata_field_def viol_def)
  have h1: "list_all (\<lambda>(key, attr). key \<notin> set ContextEntity_fields) ?data"
    by (simp add: ContextEntity_fields_def)
  have h2: "list_ex (\<lambda>(key, attr). isl (parse_obj integral_host attr)) ?data"
    by (simp add: bad)
  show ?thesis
    using h1 h2 bad
      construction_aborts_on_malformed_attribute [OF h1 h2, of "''Bcn-Welt''" "''Room''"]
    by (intro conjI) assumption+
qed

subsection \<open>Properties and relationships\<close>

text \<open>
  On a host on which field validation is idempotent, an attribute that a constructor
  returned is rebuilt unchanged from the dict of its fields: its type is a member, its
  value is returned again by the conversion and the validator, and its metadata is
  \<open>None\<close> or the empty dict.
\<close>

lemma validate_value_type_fixpoint:
  "validate_value_type h v values = Inr w \<Longrightarrow> validate_value_type h w values = Inr w"
  by (auto simp: validate_value_type_def split: option.splits if_splits sum.splits)














subsection \<open>Where the code does not do what its documentation says\<close>

text \<open>
  C1. The round trip loses metadata. The entity built from a flat object whose attribute
  \<open>temperature\<close> is the number 20.0 with the metadata \<open>{"type": "Text"}\<close> serializes
  with the metadata \<open>None\<close>:
  the metadata validator returns nothing for a dict that is not empty (see C7).
\<close>

theorem round_trip_drops_metadata:
  "map_sum id ContextEntity_dict
     (ContextEntity_init integral_host ''Bcn-Welt'' ''Room''
        [(''temperature'', PDict [(''type'', PStr ''Number''), (''value'', PFloat 20),
                                  (''metadata'', PDict [(''type'', PStr ''Text'')])])])
   = Inr [(''id'', PStr ''Bcn-Welt''), (''type'', PStr ''Room''),
          (''temperature'', PDict [(''type'', PEnum NUMBER), (''value'', PFloat 20),
                                   (''metadata'', PNone)])]"
  by (simp add: ContextEntity_init_def ContextEntity_fields_def validate_properties_def
      parse_obj_def ContextAttribute_init_def type_field_def DataTypes_field_def
      DataTypes_of_str_def DataTypes_members_def constr_str_def re_match_def fiware_regex_def
      value_field_def values_after_type_def validate_value_type_def metadata_field_def
      validate_metadata_type_def ContextEntity_dict_def ContextAttribute_dict_def
      integral_host_def integral_of_str_def nat_of_digits_def)

text \<open>
  C5. The pattern of \<open>NamedContextAttribute.name\<close> puts the lookahead for the reserved
  names after the end anchor, where nothing of the name is left to look at, so it never
  rejects: a named attribute with the name \<open>id\<close> is constructed, and \<open>type\<close>,
  \<open>geo:distance\<close> and \<open>*\<close> pass the field's constraints as well.
\<close>

theorem reserved_name_accepted:
  "NamedContextAttribute_init integral_host
     [(''name'', PStr ''id''), (''type'', PStr ''Text''), (''value'', PStr ''x'')]
   = Inr \<lparr>attr_type = TEXT, attr_value = VStr ''x'', attr_metadata = MetaDict [],
          attr_name = ''id''\<rparr>
   \<and> constr_str 1 256 attribute_name_regex ''type'' = Inr ''type''
   \<and> constr_str 1 256 attribute_name_regex ''geo:distance'' = Inr ''geo:distance''
   \<and> constr_str 1 256 attribute_name_regex ''*'' = Inr ''*''"
  by (simp add: NamedContextAttribute_init_def type_field_def DataTypes_field_def
      DataTypes_of_str_def DataTypes_members_def constr_str_def re_match_def fiware_regex_def
      attribute_name_regex_def str_field_def
      value_field_def values_after_type_def validate_value_type_def metadata_field_def
      integral_host_def integral_of_str_def nat_of_digits_def)

text \<open>
  C6. The pattern of \<open>ContextEntity.id\<close> and \<open>ContextEntity.type\<close> takes every code
  point from 0 to 127 except \<open>?\<close>, \<open>&\<close>, \<open>#\<close> and \<open>/\<close>, although the descriptions of
  the fields exclude control characters and whitespace: an entity with the id \<open>a b\<close> is
  constructed, and so is one whose id ends in the control character 7 and whose type
  starts with a tab.
\<close>

theorem whitespace_and_control_accepted:
  "ContextEntity_init h ''a b'' ''Room'' []
     = Inr \<lparr>entity_id = ''a b'', entity_type = ''Room'', entity_attrs = []\<rparr>
   \<and> ContextEntity_init h [CHR ''a'', CHR 0x07] [CHR 0x09, CHR ''R''] []
     = Inr \<lparr>entity_id = [CHR ''a'', CHR 0x07], entity_type = [CHR 0x09, CHR ''R''],
            entity_attrs = []\<rparr>"
  by (simp add: ContextEntity_init_def validate_properties_def constr_str_def re_match_def
      fiware_regex_def)

text \<open>
  C7. A metadata dict that is not empty is neither parsed into a metadata record nor
  rejected: the validator returns \<open>None\<close> for it, and the attribute is constructed
  with the metadata \<open>None\<close>, whether the dict has the shape of a metadata record
  (\<open>{"type": "Text"}\<close>) or not (\<open>{"type": "no/such type"}\<close>).
\<close>

theorem nonempty_metadata_dropped:
  "validate_metadata_type (PDict (x # d)) = Inr MetaNone
   \<and> ContextAttribute_init integral_host
       [(''type'', PStr ''Number''), (''value'', PFloat 20),
        (''metadata'', PDict [(''type'', PStr ''Text'')])]
     = Inr \<lparr>attr_type = NUMBER, attr_value = VFloat 20, attr_metadata = MetaNone\<rparr>
   \<and> ContextAttribute_init integral_host
       [(''type'', PStr ''Number''), (''value'', PFloat 20),
        (''metadata'', PDict [(''type'', PStr ''no/such type'')])]
     = Inr \<lparr>attr_type = NUMBER, attr_value = VFloat 20, attr_metadata = MetaNone\<rparr>"
  by (simp add: ContextAttribute_init_def type_field_def DataTypes_field_def
      DataTypes_of_str_def DataTypes_members_def constr_str_def re_match_def fiware_regex_def
      value_field_def values_after_type_def validate_value_type_def metadata_field_def
      validate_metadata_type_def integral_host_def integral_of_str_def nat_of_digits_def)

text \<open>
  C8. \<open>add_properties\<close> with a list that is not empty raises TypeError at the first
  named attribute and leaves the entity as it was.
\<close>

theorem add_properties_list_raises:
  "add_properties h e (AttrsList (n # ns)) = (e, Some (Raised TypeError))"
  by (simp add: add_properties_def attribute_of_named_def model_kwargs_def)

text \<open>
  C10. For a sample without the key \<open>temperature\<close> the factory returns no model: its
  validator is registered for a field the generated class does not have, and the
  creation of the class raises ConfigError.
\<close>

theorem model_factory_needs_temperature:
  "create_context_entity_model None
     (Some [(''id'', PStr ''r1''), (''type'', PStr ''Room''),
            (''humidity'', PDict [(''type'', PStr ''Number''), (''value'', PInt 5)])])
   = Inl (Raised ConfigError)"
  by (simp add: create_context_entity_model_def create_model_def ContextEntity_fields_def)

text \<open>
  What the two functions do where they succeed: a dict of attributes whose names are no
  fields of the entity is merged into the attribute map, each entry in the place of the
  attribute of the same name or after the last one; and for a sample with the key
  \<open>temperature\<close> the required fields of the generated model are the keys of the sample
  other than \<open>id\<close> and \<open>type\<close>.
\<close>

lemma setattr_all_extra:
  "list_all (\<lambda>key. key \<notin> set ContextEntity_fields) (map fst d) \<Longrightarrow>
     setattr_all e d
       = (e\<lparr>entity_attrs := fold (\<lambda>(key, a). AList.update key a) d (entity_attrs e)\<rparr>, None)"
  by (induction d arbitrary: e) (auto simp: setattr_def)

lemma add_properties_dict:
  "list_all (\<lambda>key. key \<notin> set ContextEntity_fields) (map fst d) \<Longrightarrow>
     add_properties h e (AttrsDict d)
       = (e\<lparr>entity_attrs := fold (\<lambda>(key, a). AList.update key a) d (entity_attrs e)\<rparr>, None)"
  by (simp add: add_properties_def setattr_all_extra)

lemma add_properties_merge_example:
  "add_properties h \<lparr>entity_id = i, entity_type = t, entity_attrs = [(''a'', a1), (''b'', a2)]\<rparr>
     (AttrsDict [(''a'', a3)])
   = (\<lparr>entity_id = i, entity_type = t, entity_attrs = [(''a'', a3), (''b'', a2)]\<rparr>, None)"
  by (simp add: add_properties_def setattr_def ContextEntity_fields_def)

lemma model_factory_with_temperature:
  "''temperature'' \<in> fst ` set d \<Longrightarrow>
     create_context_entity_model None (Some d)
       = Inr \<lparr>model_name = ''GeneratedContextEntity'',
              model_required = filter (\<lambda>key. key \<notin> set ContextEntity_fields) (map fst d),
              model_validators = [(''validate_test'', ''temperature'')]\<rparr>"
  by (auto simp: create_context_entity_model_def create_model_def ContextEntity_fields_def)

end
